theory Spec2Isabelle
  imports Main "HOL-Library.Sublist"
begin

section \<open>Text\<close>

text \<open>
  A JavaScript string is modelled as a \<^typ>\<open>string\<close> whose characters are the code units
  0 to 255 (Latin-1). On this range \<^verbatim>\<open>String.prototype.toLowerCase\<close> works unit by unit:
  A to Z and the accented capitals 192 to 222 (the multiplication sign 215 apart) move up
  by 32, every other unit stays.
\<close>

definition isUpper :: "char \<Rightarrow> bool" where
  "isUpper c = (let n = (of_char c :: nat) in
     (65 \<le> n \<and> n \<le> 90) \<or> (192 \<le> n \<and> n \<le> 222 \<and> n \<noteq> 215))"

definition lowerChar :: "char \<Rightarrow> char" where
  "lowerChar c = (if isUpper c then char_of ((of_char c :: nat) + 32) else c)"

definition toLowerCase :: "string \<Rightarrow> string" where
  "toLowerCase s = map lowerChar s"

text \<open>
  \<^verbatim>\<open>s.includes(t)\<close>: \<open>t\<close> occurs in \<open>s\<close> as a run of consecutive units, starting at some
  position of \<open>s\<close> (the end included, where only the empty text fits).
\<close>

fun includesStr :: "string \<Rightarrow> string \<Rightarrow> bool" where
  "includesStr [] t = (t = [])"
| "includesStr (c # cs) t = (prefix t (c # cs) \<or> includesStr cs t)"

section \<open>Values, records and exceptions\<close>

text \<open>
  The form writes text into every field it stores, so a field of a record read back from
  the collection is text, \<^verbatim>\<open>null\<close>, or absent. A record is a JavaScript object: a map
  from property names to values, where an absent property reads as \<^verbatim>\<open>undefined\<close>
  (\<open>None\<close>).
\<close>

datatype jsval = Null | Str string

type_synonym student = "string \<rightharpoonup> jsval"

datatype exception = TypeError

text \<open>
  \<^verbatim>\<open>v.toLowerCase()\<close> and \<^verbatim>\<open>v.toString()\<close>: a method call on \<^verbatim>\<open>undefined\<close> or
  \<^verbatim>\<open>null\<close> throws.
\<close>

definition callToLowerCase :: "jsval option \<Rightarrow> exception + string" where
  "callToLowerCase v = (case v of Some (Str s) \<Rightarrow> Inr (toLowerCase s) | _ \<Rightarrow> Inl TypeError)"

definition callToString :: "jsval option \<Rightarrow> exception + string" where
  "callToString v = (case v of Some (Str s) \<Rightarrow> Inr s | _ \<Rightarrow> Inl TypeError)"

section \<open>The search filter\<close>

text \<open>
  The callback of \<^verbatim>\<open>students.filter\<close> (App.js, lines 81 to 85). The operator \<^verbatim>\<open>||\<close>
  evaluates its right operand only when the left one is false.
\<close>

definition matchesTerm :: "string \<Rightarrow> student \<Rightarrow> exception + bool" where
  "matchesTerm lowercasedTerm st =
     (case callToLowerCase (st ''name'') of
        Inl e \<Rightarrow> Inl e
      | Inr n \<Rightarrow>
          if includesStr n lowercasedTerm then Inr True
          else (case callToLowerCase (st ''email'') of
                  Inl e \<Rightarrow> Inl e
                | Inr m \<Rightarrow>
                    if includesStr m lowercasedTerm then Inr True
                    else (case callToString (st ''studentId'') of
                            Inl e \<Rightarrow> Inl e
                          | Inr i \<Rightarrow> Inr (includesStr i lowercasedTerm))))"

text \<open>
  \<^verbatim>\<open>Array.prototype.filter\<close> with a callback that may throw: the elements are visited in
  order, and the first exception ends the call.
\<close>

fun filterArr :: "('a \<Rightarrow> exception + bool) \<Rightarrow> 'a list \<Rightarrow> exception + 'a list" where
  "filterArr p [] = Inr []"
| "filterArr p (x # xs) =
     (case p x of
        Inl e \<Rightarrow> Inl e
      | Inr b \<Rightarrow>
          (case filterArr p xs of
             Inl e \<Rightarrow> Inl e
           | Inr ys \<Rightarrow> Inr (if b then x # ys else ys)))"

text \<open>The value \<^verbatim>\<open>results\<close> of the search effect (App.js, lines 80 to 85).\<close>

definition searchFilter :: "string \<Rightarrow> student list \<Rightarrow> exception + student list" where
  "searchFilter searchTerm studs = filterArr (matchesTerm (toLowerCase searchTerm)) studs"

text \<open>
  The search as the specification words it, for comparison: a record is kept when the
  term is a substring of its name, email or studentId, letter case ignored in all three.
  A field that is not text contributes the empty text here; the comparison with the code
  is made on records whose three fields are text.
\<close>

definition textOf :: "jsval option \<Rightarrow> string" where
  "textOf v = (case v of Some (Str s) \<Rightarrow> s | _ \<Rightarrow> [])"

definition containsIgnoringCase :: "string \<Rightarrow> string \<Rightarrow> bool" where
  "containsIgnoringCase s t = includesStr (toLowerCase s) (toLowerCase t)"

definition specMatches :: "string \<Rightarrow> student \<Rightarrow> bool" where
  "specMatches t st =
     (containsIgnoringCase (textOf (st ''name'')) t \<or>
      containsIgnoringCase (textOf (st ''email'')) t \<or>
      containsIgnoringCase (textOf (st ''studentId'')) t)"

definition specFilter :: "string \<Rightarrow> student list \<Rightarrow> student list" where
  "specFilter t studs = filter (specMatches t) studs"

definition isText :: "jsval option \<Rightarrow> bool" where
  "isText v = (case v of Some (Str s) \<Rightarrow> True | _ \<Rightarrow> False)"

definition wellFormed :: "student \<Rightarrow> bool" where
  "wellFormed st = (isText (st ''name'') \<and> isText (st ''email'') \<and> isText (st ''studentId''))"

text \<open>
  What the callback computes on a record whose three fields are text: the studentId is
  searched as it is stored, for the lowercased term.
\<close>

definition codeMatches :: "string \<Rightarrow> student \<Rightarrow> bool" where
  "codeMatches t st =
     (containsIgnoringCase (textOf (st ''name'')) t \<or>
      containsIgnoringCase (textOf (st ''email'')) t \<or>
      includesStr (textOf (st ''studentId'')) (toLowerCase t))"

text \<open>
  When the callback throws, by the order of evaluation: the name is always read; the email
  only when the name does not hold the term; the studentId only when neither does.
\<close>

definition nameHit :: "string \<Rightarrow> student \<Rightarrow> bool" where
  "nameHit lt st = includesStr (toLowerCase (textOf (st ''name''))) lt"

definition emailHit :: "string \<Rightarrow> student \<Rightarrow> bool" where
  "emailHit lt st = includesStr (toLowerCase (textOf (st ''email''))) lt"

definition throwsOn :: "string \<Rightarrow> student \<Rightarrow> bool" where
  "throwsOn lt st =
     (if \<not> isText (st ''name'') then True
      else if nameHit lt st then False
      else if \<not> isText (st ''email'') then True
      else if emailHit lt st then False
      else \<not> isText (st ''studentId''))"

text \<open>
  Whether the callback keeps a record on which it does not throw: the term is held by the
  lowercased name, by the lowercased email, or by the studentId as stored.
\<close>

definition idHit :: "string \<Rightarrow> student \<Rightarrow> bool" where
  "idHit lt st = includesStr (textOf (st ''studentId'')) lt"

definition keptOn :: "string \<Rightarrow> student \<Rightarrow> bool" where
  "keptOn lt st = (nameHit lt st \<or> emailHit lt st \<or> idHit lt st)"

section \<open>The email pattern\<close>

text \<open>
  The regular expression \<^verbatim>\<open>/\S+@\S+\.\S+/\<close> is a sequence of five items, each a
  character class taken once or one or more times. \<^verbatim>\<open>\S\<close> is any unit that is not white
  space; below 256 the white space units are 9 to 13, 32 and 160.
\<close>

datatype cls = NonSpace | Lit char

datatype item = One cls | Plus cls

definition isSpace :: "char \<Rightarrow> bool" where
  "isSpace c = (let n = (of_char c :: nat) in (9 \<le> n \<and> n \<le> 13) \<or> n = 32 \<or> n = 160)"

fun inClass :: "cls \<Rightarrow> char \<Rightarrow> bool" where
  "inClass NonSpace c = (\<not> isSpace c)"
| "inClass (Lit x) c = (c = x)"

text \<open>
  \<open>matchHere r s\<close>: some prefix of \<open>s\<close> matches the whole of \<open>r\<close>. \<open>regexTest r s\<close> is
  \<^verbatim>\<open>r.test(s)\<close> for a pattern with no anchor: a match may start at any position.
\<close>

fun matchHere :: "item list \<Rightarrow> string \<Rightarrow> bool" where
  "matchHere [] s = True"
| "matchHere (One k # r) [] = False"
| "matchHere (One k # r) (c # cs) = (inClass k c \<and> matchHere r cs)"
| "matchHere (Plus k # r) [] = False"
| "matchHere (Plus k # r) (c # cs) =
     (inClass k c \<and> (matchHere r cs \<or> matchHere (Plus k # r) cs))"

fun regexTest :: "item list \<Rightarrow> string \<Rightarrow> bool" where
  "regexTest r [] = matchHere r []"
| "regexTest r (c # cs) = (matchHere r (c # cs) \<or> regexTest r cs)"

definition emailPattern :: "item list" where
  "emailPattern =
     [Plus NonSpace, One (Lit CHR ''@''), Plus NonSpace, One (Lit CHR ''.''), Plus NonSpace]"

text \<open>
  \<^verbatim>\<open>!v\<close> on a field value, and the conversion to text that \<^verbatim>\<open>test\<close> applies to its
  argument.
\<close>

definition falsy :: "jsval option \<Rightarrow> bool" where
  "falsy v = (case v of None \<Rightarrow> True | Some Null \<Rightarrow> True | Some (Str s) \<Rightarrow> s = [])"

definition toStringArg :: "jsval option \<Rightarrow> string" where
  "toStringArg v =
     (case v of None \<Rightarrow> ''undefined'' | Some Null \<Rightarrow> ''null'' | Some (Str s) \<Rightarrow> s)"

section \<open>The component's state and its handlers\<close>

text \<open>
  The state variables of \<^verbatim>\<open>App\<close> that the handlers below read or write (the database and
  authentication handles are left to the store). The field \<open>calls\<close> is not a variable of
  the component: it records, in order, the mutation requests the handlers have sent to
  the store.
\<close>

datatype storeCall =
    AddDoc student
  | UpdateDoc "jsval option" student
  | DeleteDoc "jsval option"

record app =
  students :: "student list"
  filteredStudents :: "student list"
  isModalOpen :: bool
  isEditMode :: bool
  currentStudent :: student
  searchTerm :: string
  isLoading :: bool
  error :: "string option"
  calls :: "storeCall list"

definition emptyStudent :: student where
  "emptyStudent =
     [''name'' \<mapsto> Str [], ''email'' \<mapsto> Str [], ''phone'' \<mapsto> Str [], ''studentId'' \<mapsto> Str []]"

definition initialApp :: app where
  "initialApp =
     \<lparr>students = [], filteredStudents = [], isModalOpen = False, isEditMode = False,
      currentStudent = emptyStudent, searchTerm = [], isLoading = True, error = None,
      calls = []\<rparr>"

text \<open>
  A document of a snapshot has an identifier and its stored fields. The callback of
  \<^verbatim>\<open>onSnapshot\<close> builds \<^verbatim>\<open>{ id: doc.id, ...doc.data() }\<close> from each, in the snapshot's
  order: the stored fields are spread over the identifier.
\<close>

record doc =
  docId :: string
  docData :: student

definition materialize :: "doc \<Rightarrow> student" where
  "materialize d = [''id'' \<mapsto> Str (docId d)] ++ docData d"

definition onSnapshot :: "doc list \<Rightarrow> app \<Rightarrow> app" where
  "onSnapshot docs s = s\<lparr>students := map materialize docs, isLoading := False\<rparr>"

definition onSnapshotError :: "app \<Rightarrow> app" where
  "onSnapshotError s = s\<lparr>error := Some ''Failed to fetch student data.'', isLoading := False\<rparr>"

text \<open>
  The search effect stores the filter's result; when the filter throws, nothing is
  stored.
\<close>

definition searchEffect :: "app \<Rightarrow> exception + app" where
  "searchEffect s =
     (case searchFilter (searchTerm s) (students s) of
        Inl e \<Rightarrow> Inl e
      | Inr results \<Rightarrow> Inr (s\<lparr>filteredStudents := results\<rparr>))"

definition setSearchTerm :: "string \<Rightarrow> app \<Rightarrow> app" where
  "setSearchTerm t s = s\<lparr>searchTerm := t\<rparr>"

definition openModal :: "app \<Rightarrow> app" where
  "openModal s = s\<lparr>isModalOpen := True\<rparr>"

definition closeModal :: "app \<Rightarrow> app" where
  "closeModal s =
     s\<lparr>isModalOpen := False, isEditMode := False, currentStudent := emptyStudent,
       error := None\<rparr>"

definition handleInputChange :: "string \<Rightarrow> string \<Rightarrow> app \<Rightarrow> app" where
  "handleInputChange name val s = s\<lparr>currentStudent := (currentStudent s)(name \<mapsto> Str val)\<rparr>"

definition validateForm :: "app \<Rightarrow> bool \<times> app" where
  "validateForm s =
     (if falsy (currentStudent s ''name'') \<or> falsy (currentStudent s ''email'')
         \<or> falsy (currentStudent s ''studentId'')
      then (False, s\<lparr>error := Some ''Name, Email, and Student ID are required.''\<rparr>)
      else if \<not> regexTest emailPattern (toStringArg (currentStudent s ''email''))
      then (False, s\<lparr>error := Some ''Please enter a valid email address.''\<rparr>)
      else (True, s))"

text \<open>
  What the \<^verbatim>\<open>try\<close> block of a handler meets. \<open>Threw\<close>: building the reference throws
  before any request is sent. \<open>Rejected\<close>: the request is sent and fails. \<open>Resolved\<close>:
  the request is sent and succeeds. A handler is followed to its end: after the
  \<^verbatim>\<open>await\<close> it only calls setters with fixed values, so whatever happens in between does
  not change what it writes.
\<close>

datatype outcome = Threw | Rejected | Resolved

definition handleAddStudent :: "outcome \<Rightarrow> app \<Rightarrow> app" where
  "handleAddStudent oc s =
     (case validateForm s of
        (False, s1) \<Rightarrow> s1
      | (True, s1) \<Rightarrow>
          (case oc of
             Threw \<Rightarrow> s1\<lparr>error := Some ''Failed to add student. Please try again.''\<rparr>
           | Rejected \<Rightarrow>
               s1\<lparr>calls := calls s1 @ [AddDoc (currentStudent s1)],
                  error := Some ''Failed to add student. Please try again.''\<rparr>
           | Resolved \<Rightarrow> closeModal (s1\<lparr>calls := calls s1 @ [AddDoc (currentStudent s1)]\<rparr>)))"

definition handleUpdateStudent :: "outcome \<Rightarrow> app \<Rightarrow> app" where
  "handleUpdateStudent oc s =
     (case validateForm s of
        (False, s1) \<Rightarrow> s1
      | (True, s1) \<Rightarrow>
          (case oc of
             Threw \<Rightarrow> s1\<lparr>error := Some ''Failed to update student. Please try again.''\<rparr>
           | Rejected \<Rightarrow>
               s1\<lparr>calls := calls s1 @ [UpdateDoc (currentStudent s1 ''id'') (currentStudent s1)],
                  error := Some ''Failed to update student. Please try again.''\<rparr>
           | Resolved \<Rightarrow>
               closeModal
                 (s1\<lparr>calls := calls s1 @ [UpdateDoc (currentStudent s1 ''id'') (currentStudent s1)]\<rparr>)))"

text \<open>
  \<^verbatim>\<open>window.customConfirm\<close> is either not installed, or installed and resolving to the
  user's answer. The condition of \<^verbatim>\<open>handleDeleteStudent\<close> is
  \<^verbatim>\<open>window.customConfirm ? await window.customConfirm(...) : true\<close>.
\<close>

datatype confirm = NotInstalled | Answers bool

definition confirmed :: "confirm \<Rightarrow> bool" where
  "confirmed cf = (case cf of NotInstalled \<Rightarrow> True | Answers b \<Rightarrow> b)"

definition handleDeleteStudent :: "confirm \<Rightarrow> outcome \<Rightarrow> jsval option \<Rightarrow> app \<Rightarrow> app" where
  "handleDeleteStudent cf oc ident s =
     (if confirmed cf then
        (case oc of
           Threw \<Rightarrow> s\<lparr>error := Some ''Failed to delete student. Please try again.''\<rparr>
         | Rejected \<Rightarrow>
             s\<lparr>calls := calls s @ [DeleteDoc ident],
               error := Some ''Failed to delete student. Please try again.''\<rparr>
         | Resolved \<Rightarrow> s\<lparr>calls := calls s @ [DeleteDoc ident]\<rparr>)
      else s)"

definition startEdit :: "student \<Rightarrow> app \<Rightarrow> app" where
  "startEdit st s = openModal (s\<lparr>isEditMode := True, currentStudent := st\<rparr>)"

text \<open>
  The events of the component, wired as the JSX wires them: the submit button calls
  \<^verbatim>\<open>handleUpdateStudent\<close> in edit mode and \<^verbatim>\<open>handleAddStudent\<close> otherwise; the delete
  button of a row passes that row's \<^verbatim>\<open>id\<close>.
\<close>

datatype event =
    Snapshot "doc list"
  | SnapshotError
  | SearchInput string
  | ClickAdd
  | ClickClose
  | FieldInput string string
  | ClickSubmit outcome
  | ClickEdit student
  | ClickDelete confirm outcome student

fun step :: "event \<Rightarrow> app \<Rightarrow> app" where
  "step (Snapshot docs) s = onSnapshot docs s"
| "step SnapshotError s = onSnapshotError s"
| "step (SearchInput t) s = setSearchTerm t s"
| "step ClickAdd s = openModal s"
| "step ClickClose s = closeModal s"
| "step (FieldInput name val) s = handleInputChange name val s"
| "step (ClickSubmit oc) s =
     (if isEditMode s then handleUpdateStudent oc s else handleAddStudent oc s)"
| "step (ClickEdit st) s = startEdit st s"
| "step (ClickDelete cf oc st) s = handleDeleteStudent cf oc (st ''id'') s"

fun isSnapshot :: "event \<Rightarrow> bool" where
  "isSnapshot (Snapshot docs) = True"
| "isSnapshot e = False"

text \<open>The record of the specification's scenarios, and one stored without an email.\<close>

definition ana :: student where
  "ana =
     [''id'' \<mapsto> Str ''1'', ''name'' \<mapsto> Str ''Ana Li'', ''email'' \<mapsto> Str ''ana@x.com'',
      ''studentId'' \<mapsto> Str ''S100'']"

definition anaNoEmail :: student where
  "anaNoEmail = [''id'' \<mapsto> Str ''2'', ''name'' \<mapsto> Str ''Ana Li'']"

text \<open>A record stored with a null name, and a document stored with an \<^verbatim>\<open>id\<close> field of its own.\<close>

definition nullName :: student where
  "nullName =
     [''id'' \<mapsto> Str ''3'', ''name'' \<mapsto> Null, ''email'' \<mapsto> Str ''bo@x.com'',
      ''studentId'' \<mapsto> Str ''s300'']"

definition doc2 :: doc where
  "doc2 = \<lparr>docId = ''2'', docData = [''id'' \<mapsto> Str ''7'', ''name'' \<mapsto> Str ''Bo'']\<rparr>"

definition doc1 :: doc where
  "doc1 =
     \<lparr>docId = ''1'',
      docData =
        [''name'' \<mapsto> Str ''Ana Li'', ''email'' \<mapsto> Str ''ana@x.com'',
         ''studentId'' \<mapsto> Str ''S100'']\<rparr>"

text \<open>
  The forms of the specification's scenarios, typed into the modal opened by the add
  button: one with the name left empty, one with a malformed email, one with both faults,
  and a valid one.
\<close>

definition formEmptyName :: app where
  "formEmptyName =
     step (FieldInput ''studentId'' ''S1'')
       (step (FieldInput ''email'' ''a@b.com'') (step ClickAdd initialApp))"

definition formBadEmail :: app where
  "formBadEmail =
     step (FieldInput ''studentId'' ''S2'')
       (step (FieldInput ''email'' ''not-an-email'')
          (step (FieldInput ''name'' ''Bo'') (step ClickAdd initialApp)))"

definition formBothWrong :: app where
  "formBothWrong =
     step (FieldInput ''studentId'' ''S1'')
       (step (FieldInput ''email'' ''not-an-email'') (step ClickAdd initialApp))"

definition formGood :: app where
  "formGood =
     step (FieldInput ''studentId'' ''S1'')
       (step (FieldInput ''email'' ''a@b.com'')
          (step (FieldInput ''name'' ''Ana Li'') (step ClickAdd initialApp)))"

text \<open>A studentId without capital letters, and a run of one or more units that are not white space.\<close>

definition lowerId :: "student \<Rightarrow> bool" where
  "lowerId st = (toLowerCase (textOf (st ''studentId'')) = textOf (st ''studentId''))"

definition nonSpaceRun :: "string \<Rightarrow> bool" where
  "nonSpaceRun a = (a \<noteq> [] \<and> list_all (\<lambda>c. \<not> isSpace c) a)"

section \<open>Evaluation on concrete text\<close>

lemma eq_char_of_iff: "c = char_of (n :: nat) \<longleftrightarrow> take_bit 8 n = of_char c"
  using char_of_eq_iff [of n c] by auto

lemmas text_eval =
  toLowerCase_def lowerChar_def isUpper_def isSpace_def char_of_eq_iff eq_char_of_iff

lemmas form_eval =
  formEmptyName_def formBadEmail_def formBothWrong_def formGood_def initialApp_def
  emptyStudent_def openModal_def handleInputChange_def

lemma materialize_apply:
  "materialize d k =
     (case docData d k of
        Some v \<Rightarrow> Some v
      | None \<Rightarrow> if k = ''id'' then Some (Str (docId d)) else None)"
  by (simp add: materialize_def map_add_def split: option.splits)

lemma materialize_doc1: "materialize doc1 = ana"
  by (auto simp: materialize_def doc1_def ana_def map_add_def fun_eq_iff)

section \<open>Properties of the text operations\<close>

lemma includesStr_Nil [simp]: "includesStr s []"
  by (cases s) simp_all

lemma includesStr_sublist: "includesStr s t \<longleftrightarrow> sublist t s"
  by (induction s) (auto simp: sublist_Cons_right)

lemma toLowerCase_Nil [simp]: "toLowerCase [] = []"
  by (simp add: toLowerCase_def)

lemma lowerChar_idem: "lowerChar (lowerChar c) = lowerChar c"
  by (auto simp: lowerChar_def isUpper_def Let_def)

lemma toLowerCase_idem: "toLowerCase (toLowerCase s) = toLowerCase s"
  by (simp add: toLowerCase_def lowerChar_idem)

text \<open>
  Lowercasing works unit by unit, so ignoring case when searching is the same as finding a
  run of the text that equals the term once both are lowercased.
\<close>

lemma containsIgnoringCase_iff:
  "containsIgnoringCase s t \<longleftrightarrow>
     (\<exists>p u q. s = p @ u @ q \<and> toLowerCase u = toLowerCase t)"
proof
  assume "containsIgnoringCase s t"
  then obtain ps ss where e: "map lowerChar s = ps @ map lowerChar t @ ss"
    unfolding containsIgnoringCase_def includesStr_sublist sublist_def toLowerCase_def by blast
  then have "\<exists>us vs. s = us @ vs \<and> ps = map lowerChar us
      \<and> map lowerChar t @ ss = map lowerChar vs"
    by (simp add: map_eq_append_conv)
  then obtain p r where 1: "s = p @ r" and r: "map lowerChar t @ ss = map lowerChar r"
    by blast
  from r have "\<exists>us vs. r = us @ vs \<and> map lowerChar t = map lowerChar us
      \<and> ss = map lowerChar vs"
    by (simp add: append_eq_map_conv)
  then obtain u q where 2: "r = u @ q" "map lowerChar t = map lowerChar u"
    by blast
  from 1 2 have "s = p @ u @ q \<and> toLowerCase u = toLowerCase t"
    by (simp add: toLowerCase_def)
  then show "\<exists>p u q. s = p @ u @ q \<and> toLowerCase u = toLowerCase t" by blast
next
  assume "\<exists>p u q. s = p @ u @ q \<and> toLowerCase u = toLowerCase t"
  then obtain p u q where "s = p @ u @ q" "toLowerCase u = toLowerCase t" by blast
  then have "toLowerCase s = toLowerCase p @ toLowerCase t @ toLowerCase q"
    by (simp add: toLowerCase_def)
  then show "containsIgnoringCase s t"
    unfolding containsIgnoringCase_def includesStr_sublist sublist_def by blast
qed

section \<open>The matcher against the pattern's language\<close>

text \<open>
  \<open>matchHere\<close> and \<open>regexTest\<close> decide what the items mean: a class taken one or more
  times matches a non-empty run of units of the class, and a match may start anywhere.
  For the email pattern this gives the texts that hold, somewhere, a run without white
  space, an at sign, a second such run, a dot and a third run.
\<close>

lemma matchHere_Plus_iff:
  "matchHere (Plus k # r) s \<longleftrightarrow>
     (\<exists>a s'. s = a @ s' \<and> a \<noteq> [] \<and> list_all (inClass k) a \<and> matchHere r s')"
proof (induction s)
  case Nil
  show ?case by simp
next
  case (Cons c cs)
  show ?case
  proof
    assume "matchHere (Plus k # r) (c # cs)"
    then have c: "inClass k c" and d: "matchHere r cs \<or> matchHere (Plus k # r) cs"
      by simp_all
    from d show "\<exists>a s'. c # cs = a @ s' \<and> a \<noteq> [] \<and> list_all (inClass k) a \<and> matchHere r s'"
    proof
      assume "matchHere r cs"
      with c have "c # cs = [c] @ cs \<and> [c] \<noteq> [] \<and> list_all (inClass k) [c] \<and> matchHere r cs"
        by simp
      then show ?thesis by blast
    next
      assume "matchHere (Plus k # r) cs"
      with Cons obtain a s' where
        "cs = a @ s'" "a \<noteq> []" "list_all (inClass k) a" "matchHere r s'"
        by blast
      with c have "c # cs = (c # a) @ s' \<and> c # a \<noteq> [] \<and> list_all (inClass k) (c # a)
          \<and> matchHere r s'"
        by simp
      then show ?thesis by blast
    qed
  next
    assume "\<exists>a s'. c # cs = a @ s' \<and> a \<noteq> [] \<and> list_all (inClass k) a \<and> matchHere r s'"
    then obtain a s' where
      e: "c # cs = a @ s'" and n: "a \<noteq> []" and l: "list_all (inClass k) a" and m: "matchHere r s'"
      by blast
    from n obtain x a' where a: "a = x # a'" by (cases a) auto
    with e have x: "x = c" and cs: "cs = a' @ s'" by simp_all
    from l a x have c: "inClass k c" and l': "list_all (inClass k) a'" by simp_all
    show "matchHere (Plus k # r) (c # cs)"
    proof (cases "a' = []")
      case True
      with cs m c show ?thesis by simp
    next
      case False
      with cs l' m have "matchHere (Plus k # r) cs" using Cons by blast
      with c show ?thesis by simp
    qed
  qed
qed

lemma matchHere_One_iff:
  "matchHere (One k # r) s \<longleftrightarrow> (\<exists>c s'. s = c # s' \<and> inClass k c \<and> matchHere r s')"
  by (cases s) simp_all

lemma regexTest_iff: "regexTest r s \<longleftrightarrow> (\<exists>p s'. s = p @ s' \<and> matchHere r s')"
proof (induction s)
  case Nil
  show ?case by simp
next
  case (Cons c cs)
  show ?case
  proof
    assume "regexTest r (c # cs)"
    then have "matchHere r (c # cs) \<or> regexTest r cs" by simp
    then show "\<exists>p s'. c # cs = p @ s' \<and> matchHere r s'"
    proof
      assume "matchHere r (c # cs)"
      then have "c # cs = [] @ (c # cs) \<and> matchHere r (c # cs)" by simp
      then show ?thesis by blast
    next
      assume "regexTest r cs"
      with Cons obtain p s' where "cs = p @ s'" "matchHere r s'" by blast
      then have "c # cs = (c # p) @ s' \<and> matchHere r s'" by simp
      then show ?thesis by blast
    qed
  next
    assume "\<exists>p s'. c # cs = p @ s' \<and> matchHere r s'"
    then obtain p s' where e: "c # cs = p @ s'" and m: "matchHere r s'" by blast
    show "regexTest r (c # cs)"
    proof (cases "p = []")
      case True
      with e m have "matchHere r (c # cs)" by simp
      then show ?thesis by simp
    next
      case False
      then obtain x p' where "p = x # p'" by (cases p) auto
      with e have "cs = p' @ s'" by simp
      with m have "regexTest r cs" using Cons by blast
      then show ?thesis by simp
    qed
  qed
qed

lemma inClass_NonSpace: "inClass NonSpace = (\<lambda>c. \<not> isSpace c)"
  by (rule ext) simp

lemma regexTest_emailPattern_iff:
  "regexTest emailPattern s \<longleftrightarrow>
     (\<exists>p a b c q. s = p @ a @ ''@'' @ b @ ''.'' @ c @ q
        \<and> nonSpaceRun a \<and> nonSpaceRun b \<and> nonSpaceRun c)"
  (is "?L \<longleftrightarrow> ?R")
proof
  assume ?L
  then obtain p s1 where 1: "s = p @ s1" "matchHere emailPattern s1"
    unfolding regexTest_iff by blast
  from 1(2) obtain a s2 where 2: "s1 = a @ s2" "nonSpaceRun a"
      "matchHere [One (Lit CHR ''@''), Plus NonSpace, One (Lit CHR ''.''), Plus NonSpace] s2"
    unfolding emailPattern_def matchHere_Plus_iff [of NonSpace] nonSpaceRun_def inClass_NonSpace by blast
  from 2(3) obtain s3 where 3: "s2 = CHR ''@'' # s3"
      "matchHere [Plus NonSpace, One (Lit CHR ''.''), Plus NonSpace] s3"
    unfolding matchHere_One_iff by auto
  from 3(2) obtain b s4 where 4: "s3 = b @ s4" "nonSpaceRun b"
      "matchHere [One (Lit CHR ''.''), Plus NonSpace] s4"
    unfolding matchHere_Plus_iff [of NonSpace] nonSpaceRun_def inClass_NonSpace by blast
  from 4(3) obtain s5 where 5: "s4 = CHR ''.'' # s5" "matchHere [Plus NonSpace] s5"
    unfolding matchHere_One_iff by auto
  from 5(2) obtain c q where 6: "s5 = c @ q" "nonSpaceRun c"
    unfolding matchHere_Plus_iff [of NonSpace] nonSpaceRun_def inClass_NonSpace by blast
  from 1(1) 2(1) 3(1) 4(1) 5(1) 6(1) have "s = p @ a @ ''@'' @ b @ ''.'' @ c @ q" by simp
  with 2(2) 4(2) 6(2) show ?R by blast
next
  assume ?R
  then obtain p a b c q where s: "s = p @ a @ ''@'' @ b @ ''.'' @ c @ q"
    and r: "nonSpaceRun a" "nonSpaceRun b" "nonSpaceRun c" by blast
  from r(3) have "matchHere [Plus NonSpace] (c @ q)"
    unfolding matchHere_Plus_iff [of NonSpace] nonSpaceRun_def inClass_NonSpace
    by (intro exI [of _ c] exI [of _ q]) simp
  then have "matchHere [One (Lit CHR ''.''), Plus NonSpace] (''.'' @ c @ q)" by simp
  with r(2) have "matchHere [Plus NonSpace, One (Lit CHR ''.''), Plus NonSpace] (b @ ''.'' @ c @ q)"
    unfolding matchHere_Plus_iff [of NonSpace "[One (Lit CHR ''.''), Plus NonSpace]"] nonSpaceRun_def inClass_NonSpace
    by (intro exI [of _ b] exI [of _ "''.'' @ c @ q"]) simp
  then have "matchHere [One (Lit CHR ''@''), Plus NonSpace, One (Lit CHR ''.''), Plus NonSpace]
      (''@'' @ b @ ''.'' @ c @ q)" by simp
  with r(1) have "matchHere emailPattern (a @ ''@'' @ b @ ''.'' @ c @ q)"
    unfolding emailPattern_def
      matchHere_Plus_iff [of NonSpace "[One (Lit CHR ''@''), Plus NonSpace, One (Lit CHR ''.''), Plus NonSpace]"]
      nonSpaceRun_def inClass_NonSpace
    by (intro exI [of _ a] exI [of _ "''@'' @ b @ ''.'' @ c @ q"]) simp
  with s show ?L unfolding regexTest_iff by blast
qed

section \<open>Properties of the filter\<close>

lemma exception_is_TypeError: "(e :: exception) = TypeError"
  by (cases e) simp

lemma filterArr_total:
  "list_all (\<lambda>x. p x = Inr (q x)) xs \<Longrightarrow> filterArr p xs = Inr (filter q xs)"
  by (induction xs) simp_all

lemma filterArr_throws_iff:
  "filterArr p xs = Inl TypeError \<longleftrightarrow> list_ex (\<lambda>x. p x = Inl TypeError) xs"
proof (induction xs)
  case Nil
  show ?case by simp
next
  case (Cons x xs)
  show ?case
  proof (cases "p x")
    case (Inl e)
    then show ?thesis by (simp add: exception_is_TypeError [of e])
  next
    case (Inr b)
    with Cons show ?thesis
      by (cases "filterArr p xs") (simp_all add: exception_is_TypeError)
  qed
qed

lemma isText_cases: "isText v \<Longrightarrow> \<exists>s. v = Some (Str s)"
  by (auto simp: isText_def split: option.splits jsval.splits)

lemma matchesTerm_wellFormed:
  assumes "wellFormed st"
  shows "matchesTerm (toLowerCase t) st = Inr (codeMatches t st)"
proof -
  from assms obtain n m i where
    "st ''name'' = Some (Str n)" "st ''email'' = Some (Str m)" "st ''studentId'' = Some (Str i)"
    unfolding wellFormed_def by (blast dest: isText_cases)
  then show ?thesis
    by (simp add: matchesTerm_def codeMatches_def callToLowerCase_def callToString_def
        containsIgnoringCase_def textOf_def)
qed

lemma matchesTerm_throws_iff: "matchesTerm lt st = Inl TypeError \<longleftrightarrow> throwsOn lt st"
  by (simp add: matchesTerm_def throwsOn_def nameHit_def emailHit_def isText_def textOf_def
      callToLowerCase_def callToString_def split: option.splits jsval.splits)

text \<open>Where it does not throw, the callback keeps a record exactly when a field holds the term.\<close>

lemma matchesTerm_keptOn: "\<not> throwsOn lt st \<Longrightarrow> matchesTerm lt st = Inr (keptOn lt st)"
  by (simp add: matchesTerm_def throwsOn_def keptOn_def nameHit_def emailHit_def idHit_def
      isText_def textOf_def callToLowerCase_def callToString_def
      split: option.splits jsval.splits if_splits)

lemma searchFilter_keptOn:
  assumes "\<not> list_ex (throwsOn (toLowerCase t)) studs"
  shows "searchFilter t studs = Inr (filter (keptOn (toLowerCase t)) studs)"
proof -
  from assms have "list_all (\<lambda>st. matchesTerm (toLowerCase t) st = Inr (keptOn (toLowerCase t) st)) studs"
    by (simp add: list_all_iff list_ex_iff matchesTerm_keptOn)
  then show ?thesis
    unfolding searchFilter_def by (rule filterArr_total)
qed

text \<open>
  On records whose three fields are text the filter never throws and keeps, in order, the
  records the callback accepts.
\<close>

lemma searchFilter_wellFormed:
  "list_all wellFormed studs \<Longrightarrow> searchFilter t studs = Inr (filter (codeMatches t) studs)"
  unfolding searchFilter_def
  by (rule filterArr_total) (simp add: list_all_iff matchesTerm_wellFormed)

text \<open>
  Where no studentId holds a capital letter, the code computes the search of the
  specification.
\<close>

lemma codeMatches_lowerId: "lowerId st \<Longrightarrow> codeMatches t st = specMatches t st"
  by (simp add: codeMatches_def specMatches_def containsIgnoringCase_def lowerId_def)

lemma searchFilter_lowerId:
  assumes "list_all wellFormed studs" "list_all lowerId studs"
  shows "searchFilter t studs = Inr (specFilter t studs)"
proof -
  have "filter (codeMatches t) studs = filter (specMatches t) studs"
    using assms(2) by (intro filter_cong) (simp_all add: list_all_iff codeMatches_lowerId)
  with searchFilter_wellFormed [OF assms(1)] show ?thesis
    by (simp add: specFilter_def)
qed

section \<open>Properties of the handlers\<close>

lemma validateForm_required:
  assumes "falsy (currentStudent s ''name'') \<or> falsy (currentStudent s ''email'')
            \<or> falsy (currentStudent s ''studentId'')"
  shows "validateForm s =
           (False, s\<lparr>error := Some ''Name, Email, and Student ID are required.''\<rparr>)"
  using assms by (simp add: validateForm_def)

lemma validateForm_email:
  assumes "\<not> falsy (currentStudent s ''name'')" "\<not> falsy (currentStudent s ''email'')"
    "\<not> falsy (currentStudent s ''studentId'')"
    "\<not> regexTest emailPattern (toStringArg (currentStudent s ''email''))"
  shows "validateForm s = (False, s\<lparr>error := Some ''Please enter a valid email address.''\<rparr>)"
  using assms by (simp add: validateForm_def)

lemma validateForm_formGood: "validateForm formGood = (True, formGood)"
  by (simp add: validateForm_def form_eval falsy_def toStringArg_def emailPattern_def
      isSpace_def)

text \<open>A valid form is sent to the store, and the modal closes when the request succeeds.\<close>

lemma handleAddStudent_formGood:
  "handleAddStudent Resolved formGood =
     closeModal (formGood\<lparr>calls := [AddDoc (currentStudent formGood)]\<rparr>)"
  by (simp add: handleAddStudent_def validateForm_formGood) (simp add: form_eval)

text \<open>With a confirmation hook installed, the delete handler follows the user's answer.\<close>

lemma handleDeleteStudent_declined: "handleDeleteStudent (Answers False) oc i s = s"
  by (simp add: handleDeleteStudent_def confirmed_def)

lemma handleDeleteStudent_granted:
  "calls (handleDeleteStudent (Answers True) Resolved i s) = calls s @ [DeleteDoc i]"
  by (simp add: handleDeleteStudent_def confirmed_def)

text \<open>With no hook installed, every click on a delete button sends the removal.\<close>

lemma handleDeleteStudent_not_installed:
  "calls (handleDeleteStudent NotInstalled Resolved i s) = calls s @ [DeleteDoc i]"
  by (simp add: handleDeleteStudent_def confirmed_def)

lemma students_handleAddStudent:"students (handleAddStudent oc s) = students s"
  by (simp add: handleAddStudent_def validateForm_def closeModal_def split: outcome.splits)

lemma students_handleUpdateStudent: "students (handleUpdateStudent oc s) = students s"
  by (simp add: handleUpdateStudent_def validateForm_def closeModal_def split: outcome.splits)

lemma students_handleDeleteStudent: "students (handleDeleteStudent cf oc i s) = students s"
  by (simp add: handleDeleteStudent_def split: outcome.splits)

lemma students_step: "\<not> isSnapshot e \<Longrightarrow> students (step e s) = students s"
  by (cases e)
    (simp_all add: students_handleAddStudent students_handleUpdateStudent
      students_handleDeleteStudent onSnapshotError_def setSearchTerm_def openModal_def
      closeModal_def handleInputChange_def startEdit_def)

lemma students_searchEffect: "searchEffect s = Inr s' \<Longrightarrow> students s' = students s"
  by (auto simp: searchEffect_def split: sum.splits)

section \<open>The claims\<close>

text \<open>
  Claim C1. For every record list and every search term, the search should return exactly
  the records, in order, that hold the term in their name, email or studentId, letter case
  ignored. The callback lowercases the term, the name and the email, but searches the
  studentId as it is stored: at the scenario's record, whose studentId is S100, the term
  S100 finds nothing, where the search of the specification keeps the record.
\<close>

theorem search_misses_capital_studentId:
  "searchFilter ''S100'' [ana] = Inr [] \<and> specFilter ''S100'' [ana] = [ana]"
  by (simp add: searchFilter_def specFilter_def specMatches_def containsIgnoringCase_def
      matchesTerm_def callToLowerCase_def callToString_def textOf_def ana_def text_eval)

text \<open>
  Claim C2. Submitting create or update while the name, the email or the studentId of the
  record in the form is empty sends no request to the store and sets the error message
  "Name, Email, and Student ID are required.": either handler returns the state with that
  message and nothing else changed, whatever the store would have answered. A field that
  is absent or null counts as empty, as it does for the code's test.
\<close>

theorem submit_blocked_when_required_field_empty:
  assumes "falsy (currentStudent s ''name'') \<or> falsy (currentStudent s ''email'')
            \<or> falsy (currentStudent s ''studentId'')"
  shows "handleAddStudent oc s =
           s\<lparr>error := Some ''Name, Email, and Student ID are required.''\<rparr>
       \<and> handleUpdateStudent oc s =
           s\<lparr>error := Some ''Name, Email, and Student ID are required.''\<rparr>
       \<and> calls (handleAddStudent oc s) = calls s
       \<and> calls (handleUpdateStudent oc s) = calls s
       \<and> calls (step (ClickSubmit oc) s) = calls s
       \<and> error (step (ClickSubmit oc) s) = Some ''Name, Email, and Student ID are required.''"
  by (simp add: handleAddStudent_def handleUpdateStudent_def validateForm_required [OF assms])

theorem submit_blocked_when_required_field_empty_witness:
  "falsy (currentStudent formEmptyName ''name'')
   \<and> calls (handleAddStudent Resolved formEmptyName) = []
   \<and> error (handleAddStudent Resolved formEmptyName) =
       Some ''Name, Email, and Student ID are required.''"
proof -
  have h: "falsy (currentStudent formEmptyName ''name'')"
    by (simp add: form_eval falsy_def)
  then have h': "falsy (currentStudent formEmptyName ''name'')
      \<or> falsy (currentStudent formEmptyName ''email'')
      \<or> falsy (currentStudent formEmptyName ''studentId'')"
    by simp
  have "calls formEmptyName = []"
    by (simp add: form_eval)
  with h submit_blocked_when_required_field_empty [OF h', of Resolved] show ?thesis
    by simp
qed

text \<open>
  Claim C3. Submitting create or update with name, email and studentId all non-empty but
  an email that the pattern \<^verbatim>\<open>\S+@\S+\.\S+\<close> does not match sends no request to the store
  and sets the error message "Please enter a valid email address.".
\<close>

theorem submit_blocked_when_email_malformed:
  assumes "\<not> falsy (currentStudent s ''name'')" "\<not> falsy (currentStudent s ''email'')"
    "\<not> falsy (currentStudent s ''studentId'')"
    "\<not> regexTest emailPattern (toStringArg (currentStudent s ''email''))"
  shows "handleAddStudent oc s = s\<lparr>error := Some ''Please enter a valid email address.''\<rparr>
       \<and> handleUpdateStudent oc s = s\<lparr>error := Some ''Please enter a valid email address.''\<rparr>
       \<and> calls (handleAddStudent oc s) = calls s
       \<and> calls (handleUpdateStudent oc s) = calls s
       \<and> calls (step (ClickSubmit oc) s) = calls s
       \<and> error (step (ClickSubmit oc) s) = Some ''Please enter a valid email address.''"
  by (simp add: handleAddStudent_def handleUpdateStudent_def validateForm_email [OF assms])

theorem submit_blocked_when_email_malformed_witness:
  "\<not> falsy (currentStudent formBadEmail ''name'')
   \<and> \<not> falsy (currentStudent formBadEmail ''email'')
   \<and> \<not> falsy (currentStudent formBadEmail ''studentId'')
   \<and> \<not> regexTest emailPattern (toStringArg (currentStudent formBadEmail ''email''))
   \<and> calls (handleAddStudent Resolved formBadEmail) = []
   \<and> error (handleAddStudent Resolved formBadEmail) =
       Some ''Please enter a valid email address.''"
proof -
  have h: "\<not> falsy (currentStudent formBadEmail ''name'')"
    "\<not> falsy (currentStudent formBadEmail ''email'')"
    "\<not> falsy (currentStudent formBadEmail ''studentId'')"
    "\<not> regexTest emailPattern (toStringArg (currentStudent formBadEmail ''email''))"
    by (simp_all add: form_eval falsy_def toStringArg_def emailPattern_def isSpace_def)
  have "calls formBadEmail = []"
    by (simp add: form_eval)
  with h submit_blocked_when_email_malformed [OF h, of Resolved] show ?thesis
    by simp
qed

text \<open>
  Claim C4. The delete operation should send a removal to the store only after an explicit
  confirmation by the user. The handler asks \<^verbatim>\<open>window.customConfirm\<close> only when it is
  installed and otherwise takes the answer to be yes: with no hook installed, a click on
  the delete button of the record with identifier 1 sends the removal at once.
\<close>

theorem delete_sent_without_confirmation:
  "calls (step (ClickDelete NotInstalled Resolved ana) (step (Snapshot [doc1]) initialApp))
     = [DeleteDoc (Some (Str ''1''))]"
  by (simp add: handleDeleteStudent_def confirmed_def onSnapshot_def initialApp_def ana_def)

text \<open>
  Claim C5. After every change notification of the subscription the record list is
  exactly the list of records built from the documents of that snapshot, in the
  snapshot's order, whatever the list held before. The record built from a document holds
  the document's stored fields, and the document's identifier as \<^verbatim>\<open>id\<close> unless a stored
  field of that name takes its place; so the list has one record for each document, and
  reading any property along the list gives what the documents give, in their order.
\<close>

theorem snapshot_replaces_students:
  "students (onSnapshot docs s) = map materialize docs
   \<and> students (step (Snapshot docs) s) = students (step (Snapshot docs) s')
   \<and> length (students (onSnapshot docs s)) = length docs
   \<and> map (\<lambda>st. st k) (students (onSnapshot docs s)) =
       map (\<lambda>d. case docData d k of
                   Some v \<Rightarrow> Some v
                 | None \<Rightarrow> if k = ''id'' then Some (Str (docId d)) else None) docs
   \<and> students (onSnapshot [doc1, doc2] s) =
       [[''id'' \<mapsto> Str ''1'', ''name'' \<mapsto> Str ''Ana Li'', ''email'' \<mapsto> Str ''ana@x.com'',
         ''studentId'' \<mapsto> Str ''S100''],
        [''id'' \<mapsto> Str ''7'', ''name'' \<mapsto> Str ''Bo'']]"
proof -
  have a: "materialize doc1 =
      [''id'' \<mapsto> Str ''1'', ''name'' \<mapsto> Str ''Ana Li'', ''email'' \<mapsto> Str ''ana@x.com'',
       ''studentId'' \<mapsto> Str ''S100'']"
    by (rule ext) (simp add: materialize_apply doc1_def)
  have b: "materialize doc2 = [''id'' \<mapsto> Str ''7'', ''name'' \<mapsto> Str ''Bo'']"
    by (rule ext) (simp add: materialize_apply doc2_def)
  show ?thesis
    by (simp add: onSnapshot_def a b) (simp add: materialize_apply)
qed

text \<open>
  Claim C6, as amended. Filtering a record list with the empty search term returns the
  list unchanged exactly when every record of the list has a name that is text, as every
  record of the specification has; a list holding a record whose name is absent or null
  makes the filter throw instead.
\<close>

theorem search_empty_term_identity:
  "(searchFilter [] studs = Inr studs \<longleftrightarrow> list_all (\<lambda>st. isText (st ''name'')) studs)
   \<and> (searchFilter [] studs = Inl TypeError \<longleftrightarrow> list_ex (\<lambda>st. \<not> isText (st ''name'')) studs)"
proof -
  have t: "throwsOn [] st \<longleftrightarrow> \<not> isText (st ''name'')" for st
    by (simp add: throwsOn_def nameHit_def)
  have k: "keptOn [] st" for st
    by (simp add: keptOn_def nameHit_def)
  have thr: "searchFilter [] studs = Inl TypeError \<longleftrightarrow> list_ex (\<lambda>st. \<not> isText (st ''name'')) studs"
    by (simp add: searchFilter_def filterArr_throws_iff matchesTerm_throws_iff t)
  have ok: "searchFilter [] studs = Inr studs" if "list_all (\<lambda>st. isText (st ''name'')) studs"
  proof -
    from that have "\<not> list_ex (throwsOn (toLowerCase [])) studs"
      by (simp add: list_all_iff list_ex_iff t)
    from searchFilter_keptOn [OF this] show ?thesis
      by (simp add: k)
  qed
  have "list_all (\<lambda>st. isText (st ''name'')) studs" if "searchFilter [] studs = Inr studs"
  proof -
    from that have "searchFilter [] studs \<noteq> Inl TypeError" by simp
    with thr show ?thesis by (simp add: list_all_iff list_ex_iff)
  qed
  with ok thr show ?thesis by blast
qed

theorem search_empty_term_identity_witness:
  "list_all (\<lambda>st. isText (st ''name'')) [ana, anaNoEmail]
   \<and> searchFilter [] [ana, anaNoEmail] = Inr [ana, anaNoEmail]
   \<and> list_ex (\<lambda>st. \<not> isText (st ''name'')) [ana, nullName]
   \<and> searchFilter [] [ana, nullName] = Inl TypeError"
proof -
  have h: "list_all (\<lambda>st. isText (st ''name'')) [ana, anaNoEmail]"
    by (simp add: isText_def ana_def anaNoEmail_def)
  have g: "list_ex (\<lambda>st. \<not> isText (st ''name'')) [ana, nullName]"
    by (simp add: isText_def nullName_def)
  from h g search_empty_term_identity [of "[ana, anaNoEmail]"] search_empty_term_identity [of "[ana, nullName]"] show ?thesis
    by simp
qed

text \<open>
  Claim C6 as first stated, for every record list, fails: on the list holding only the
  record \<open>nullName\<close>, whose name is null, the filter throws on the empty term.
\<close>

theorem search_empty_term_throws_on_null_name:
  "nullName ''name'' = Some Null \<and> searchFilter [] [nullName] = Inl TypeError"
  by (simp add: searchFilter_def matchesTerm_def callToLowerCase_def nullName_def)

text \<open>
  Claim C7. Closing the modal, from create or from edit mode, resets the record in the
  form to the empty template (name, email, phone and studentId all the empty text),
  leaves edit mode and clears the error message; it also hides the modal and changes
  nothing else.
\<close>

theorem closeModal_resets_form:
  "currentStudent (closeModal s) =
     [''name'' \<mapsto> Str [], ''email'' \<mapsto> Str [], ''phone'' \<mapsto> Str [], ''studentId'' \<mapsto> Str []]
   \<and> isEditMode (closeModal s) = False
   \<and> error (closeModal s) = None
   \<and> isModalOpen (closeModal s) = False
   \<and> closeModal s =
       s\<lparr>isModalOpen := False, isEditMode := False, currentStudent := emptyStudent,
         error := None\<rparr>
   \<and> step ClickClose s = closeModal s"
  by (simp add: closeModal_def emptyStudent_def)

text \<open>
  Claim C8. Only the subscription's callback writes the record list: the create, update
  and delete handlers leave it as it was, whether their request is never sent, fails or
  succeeds, and so does every event other than a snapshot, and the search effect.
\<close>

theorem students_written_only_by_snapshot:
  "students (handleAddStudent oc s) = students s
   \<and> students (handleUpdateStudent oc s) = students s
   \<and> students (handleDeleteStudent cf oc i s) = students s
   \<and> (\<not> isSnapshot e \<longrightarrow> students (step e s) = students s)
   \<and> (searchEffect s = Inr s' \<longrightarrow> students s' = students s)"
  by (simp add: students_handleAddStudent students_handleUpdateStudent
      students_handleDeleteStudent students_step students_searchEffect)

theorem students_written_only_by_snapshot_witness:
  "\<not> isSnapshot (ClickSubmit Resolved)
   \<and> students (step (ClickSubmit Resolved) (onSnapshot [doc1] formGood)) = [ana]
   \<and> searchEffect (onSnapshot [doc1] formGood) =
       Inr ((onSnapshot [doc1] formGood)\<lparr>filteredStudents := [ana]\<rparr>)
   \<and> students ((onSnapshot [doc1] formGood)\<lparr>filteredStudents := [ana]\<rparr>) = [ana]"
proof -
  have a: "students (onSnapshot [doc1] formGood) = [ana]"
    by (simp add: onSnapshot_def materialize_doc1)
  have b: "searchTerm (onSnapshot [doc1] formGood) = []"
    by (simp add: onSnapshot_def form_eval)
  have c: "searchFilter [] [ana] = Inr [ana]"
    by (simp add: searchFilter_def matchesTerm_def callToLowerCase_def ana_def)
  have d: "searchEffect (onSnapshot [doc1] formGood) =
      Inr ((onSnapshot [doc1] formGood)\<lparr>filteredStudents := [ana]\<rparr>)"
    by (simp add: searchEffect_def a b c)
  from a d
    students_written_only_by_snapshot
      [of Resolved "onSnapshot [doc1] formGood" NotInstalled None "ClickSubmit Resolved"
        "(onSnapshot [doc1] formGood)\<lparr>filteredStudents := [ana]\<rparr>"]
  show ?thesis
    by simp
qed

text \<open>
  Claim C9, as amended. The search filter returns a result whenever every record of the
  list has name, email and studentId as text. A record whose name is absent or null makes
  the filter throw. A record whose email is absent or null makes it throw only when the
  name does not hold the lowercased term, and one whose studentId is absent or null only
  when neither the name nor the email holds it; otherwise the record is kept and the
  field is never read. The filter throws exactly when it meets such a record; when it
  meets none, it returns, in order, the records of which the lowercased name or email, or
  the studentId as stored, holds the lowercased term.
\<close>

theorem search_throws_by_evaluation_order:
  "(list_all wellFormed studs \<longrightarrow> (\<exists>results. searchFilter t studs = Inr results))
   \<and> (list_ex (\<lambda>st. \<not> isText (st ''name'')) studs \<longrightarrow> searchFilter t studs = Inl TypeError)
   \<and> (searchFilter t studs = Inl TypeError \<longleftrightarrow> list_ex (throwsOn (toLowerCase t)) studs)
   \<and> (\<not> list_ex (throwsOn (toLowerCase t)) studs \<longrightarrow>
        searchFilter t studs = Inr (filter (keptOn (toLowerCase t)) studs))
   \<and> (isText (st ''name'') \<and> nameHit lt st \<longrightarrow> matchesTerm lt st = Inr True)
   \<and> (isText (st ''name'') \<and> isText (st ''email'') \<and> emailHit lt st \<longrightarrow>
        matchesTerm lt st = Inr True)"
proof (intro conjI impI)
  assume "list_all wellFormed studs"
  then show "\<exists>results. searchFilter t studs = Inr results"
    by (simp add: searchFilter_wellFormed)
next
  show iff: "searchFilter t studs = Inl TypeError \<longleftrightarrow> list_ex (throwsOn (toLowerCase t)) studs"
    by (simp add: searchFilter_def filterArr_throws_iff matchesTerm_throws_iff)
  assume "list_ex (\<lambda>st. \<not> isText (st ''name'')) studs"
  then have "list_ex (throwsOn (toLowerCase t)) studs"
    by (auto simp: list_ex_iff throwsOn_def)
  with iff show "searchFilter t studs = Inl TypeError"
    by simp
next
  assume "\<not> list_ex (throwsOn (toLowerCase t)) studs"
  then show "searchFilter t studs = Inr (filter (keptOn (toLowerCase t)) studs)"
    by (rule searchFilter_keptOn)
next
  assume "isText (st ''name'') \<and> nameHit lt st"
  then have "\<not> throwsOn lt st" "keptOn lt st"
    by (simp_all add: throwsOn_def keptOn_def)
  then show "matchesTerm lt st = Inr True"
    by (simp add: matchesTerm_keptOn)
next
  assume "isText (st ''name'') \<and> isText (st ''email'') \<and> emailHit lt st"
  then have "\<not> throwsOn lt st" "keptOn lt st"
    by (simp_all add: throwsOn_def keptOn_def)
  then show "matchesTerm lt st = Inr True"
    by (simp add: matchesTerm_keptOn)
qed

theorem search_throws_by_evaluation_order_witness:
  "list_all wellFormed [ana]
   \<and> searchFilter ''S100'' [ana] = Inr []
   \<and> list_ex (throwsOn (toLowerCase ''zz'')) [ana, anaNoEmail]
   \<and> searchFilter ''zz'' [ana, anaNoEmail] = Inl TypeError
   \<and> list_ex (\<lambda>st. \<not> isText (st ''name'')) [Map.empty]
   \<and> searchFilter ''zz'' [Map.empty] = Inl TypeError
   \<and> isText (anaNoEmail ''name'') \<and> nameHit ''an'' anaNoEmail
   \<and> matchesTerm ''an'' anaNoEmail = Inr True
   \<and> searchFilter ''An'' [ana, anaNoEmail] = Inr [ana, anaNoEmail]
   \<and> searchFilter ''X.COM'' [ana] = Inr [ana]"
proof -
  have a: "list_all wellFormed [ana]"
    by (simp add: wellFormed_def isText_def ana_def)
  have b: "list_ex (throwsOn (toLowerCase ''zz'')) [ana, anaNoEmail]"
    by (simp add: throwsOn_def nameHit_def emailHit_def isText_def textOf_def ana_def
        anaNoEmail_def text_eval)
  have c: "list_ex (\<lambda>st. \<not> isText (st ''name'')) [Map.empty]"
    by (simp add: isText_def)
  have d: "searchFilter ''S100'' [ana] = Inr []"
    by (simp add: searchFilter_def matchesTerm_def callToLowerCase_def callToString_def
        ana_def text_eval)
  have e: "isText (anaNoEmail ''name'') \<and> nameHit ''an'' anaNoEmail"
    by (simp add: isText_def nameHit_def textOf_def anaNoEmail_def text_eval)
  have f: "\<not> list_ex (throwsOn (toLowerCase ''An'')) [ana, anaNoEmail]"
    "filter (keptOn (toLowerCase ''An'')) [ana, anaNoEmail] = [ana, anaNoEmail]"
    by (simp_all add: throwsOn_def keptOn_def nameHit_def emailHit_def isText_def textOf_def
        ana_def anaNoEmail_def text_eval)
  have g: "\<not> list_ex (throwsOn (toLowerCase ''X.COM'')) [ana]"
    "filter (keptOn (toLowerCase ''X.COM'')) [ana] = [ana]"
    by (simp_all add: throwsOn_def keptOn_def nameHit_def emailHit_def isText_def textOf_def
        ana_def text_eval)
  from a b c d e f g
    search_throws_by_evaluation_order [of "[ana, anaNoEmail]" "''zz''" anaNoEmail "''an''"]
    search_throws_by_evaluation_order [of "[Map.empty]" "''zz''" anaNoEmail "''an''"]
    search_throws_by_evaluation_order [of "[ana, anaNoEmail]" "''An''" anaNoEmail "''an''"]
    search_throws_by_evaluation_order [of "[ana]" "''X.COM''" anaNoEmail "''an''"]
  show ?thesis
    by simp
qed


text \<open>
  Claim C9 as first stated fails: the record \<open>anaNoEmail\<close> has no email, yet the search
  for "an" keeps it without throwing, because its name holds the term.
\<close>

theorem search_keeps_record_without_email:
  "anaNoEmail ''email'' = None \<and> searchFilter ''an'' [anaNoEmail] = Inr [anaNoEmail]"
  by (simp add: searchFilter_def matchesTerm_def callToLowerCase_def anaNoEmail_def text_eval)

text \<open>
  Claim C10. When the submitted record breaks both rules, a required field empty and the
  email not matching the pattern, the required-field check comes first: validation fails
  with "Name, Email, and Student ID are required." and not with the message about the
  email.
\<close>

theorem required_check_precedes_email_check:
  assumes "falsy (currentStudent s ''name'') \<or> falsy (currentStudent s ''email'')
            \<or> falsy (currentStudent s ''studentId'')"
    and "\<not> regexTest emailPattern (toStringArg (currentStudent s ''email''))"
  shows "fst (validateForm s) = False
       \<and> error (snd (validateForm s)) = Some ''Name, Email, and Student ID are required.''
       \<and> error (snd (validateForm s)) \<noteq> Some ''Please enter a valid email address.''"
  by (simp add: validateForm_required [OF assms(1)])

theorem required_check_precedes_email_check_witness:
  "falsy (currentStudent formBothWrong ''name'')
   \<and> \<not> regexTest emailPattern (toStringArg (currentStudent formBothWrong ''email''))
   \<and> error (snd (validateForm formBothWrong)) =
       Some ''Name, Email, and Student ID are required.''"
proof -
  have h: "falsy (currentStudent formBothWrong ''name'')"
    by (simp add: form_eval falsy_def)
  then have h1: "falsy (currentStudent formBothWrong ''name'')
      \<or> falsy (currentStudent formBothWrong ''email'')
      \<or> falsy (currentStudent formBothWrong ''studentId'')"
    by simp
  have h2: "\<not> regexTest emailPattern (toStringArg (currentStudent formBothWrong ''email''))"
    by (simp add: form_eval toStringArg_def emailPattern_def isSpace_def)
  from h h2 required_check_precedes_email_check [OF h1 h2] show ?thesis
    by simp
qed

end
